theory Spec2Isabelle
  imports Main "HOL-Library.Word"
begin

unbundle bit_operations_syntax

section \<open>Data model of main.go\<close>

text \<open>
  A Go \<open>byte\<close> / \<open>uint8\<close> is an 8-bit word: arithmetic on it wraps modulo 256.
\<close>

type_synonym byte = "8 word"

text \<open>
  \<open>type NesHeader struct\<close> (main.go, lines 59-69). The two arrays \<open>[4]byte\<close> and
  \<open>[5]byte\<close> are lists; \<open>binary_Read\<close> below builds them with 4 and 5 elements.
\<close>

record NesHeader =
  Magic :: "byte list"
  PRGROMSize :: byte
  CHRROMSize :: byte
  Flags6 :: byte
  Flags7 :: byte
  PRGRAMSize :: byte
  Flags9 :: byte
  Flags10 :: byte
  Zero :: "byte list"

text \<open>
  \<open>unsafe.Sizeof(header)\<close>: every field is a byte or an array of bytes, so the struct
  has no padding holes and its size is the sum of the field sizes.
\<close>

definition sizeof_NesHeader :: nat where
  "sizeof_NesHeader = 4 + 1 + 1 + 1 + 1 + 1 + 1 + 1 + 5"

text \<open>
  The error values that reach \<open>check_error\<close>: \<open>io.EOF\<close>, \<open>io.ErrUnexpectedEOF\<close>, and
  the \<open>*fs.PathError\<close> that wraps the errno of a failed read system call.
\<close>

datatype go_error = EOF | ErrUnexpectedEOF | PathError nat

text \<open>
  \<open>check_error\<close> (lines 73-79) prints its message and the error and ends the process
  through \<open>log.Fatalln\<close>. The outcome is the value \<open>Fatal msg err\<close>; nothing after the
  call runs.
\<close>

datatype fatal = Fatal string go_error

definition check_error :: "go_error option \<Rightarrow> string \<Rightarrow> fatal + unit" where
  "check_error err msg = (case err of Some e \<Rightarrow> Inl (Fatal msg e) | None \<Rightarrow> Inr ())"

section \<open>The byte source\<close>

text \<open>
  An open \<open>*os.File\<close> as \<open>readNumBytes\<close> sees it: the bytes from the current offset to
  the end of the file, and the errno with which the read system call fails, if it does.
  (For a source that hands over fewer bytes than it holds on one call, \<open>content\<close> is
  what that call hands over.)
\<close>

record File =
  content :: "byte list"
  fault :: "nat option"

text \<open>
  \<open>(*os.File).Read(b)\<close> of the Go standard library, one call: it returns 0 and no
  error for an empty \<open>b\<close>; on a failing system call it returns 0 and the wrapped error;
  when no byte is left it returns 0 and \<open>io.EOF\<close>; otherwise it copies up to \<open>len(b)\<close>
  bytes to the front of \<open>b\<close>, leaves the rest of \<open>b\<close> as it was, and returns their
  number with no error. The result is the buffer after the call, the count and the
  error.
\<close>

definition File_Read :: "File \<Rightarrow> byte list \<Rightarrow> byte list \<times> nat \<times> go_error option" where
  "File_Read f b =
     (if b = [] then (b, 0, None)
      else case fault f of
        Some e \<Rightarrow> (b, 0, Some (PathError e))
      | None \<Rightarrow>
          (if content f = [] then (b, 0, Some EOF)
           else let n = min (length b) (length (content f))
                in (take n (content f) @ drop n b, n, None)))"

text \<open>
  \<open>readNumBytes\<close> (lines 113-118): \<open>make([]byte, numBytes)\<close> is a zeroed buffer; the
  count that \<open>Read\<close> returns is discarded, only the error is checked.
\<close>

definition msg_reading :: string where
  "msg_reading = ''** ERROR: Reading File.'' @ [CHR 0x0A, CHR 0x0A]"

definition msg_decoding :: string where
  "msg_decoding = ''** ERROR: Decoding Header.'' @ [CHR 0x0A, CHR 0x0A]"

definition readNumBytes :: "File \<Rightarrow> nat \<Rightarrow> fatal + byte list" where
  "readNumBytes f numBytes =
     (let bytes = replicate numBytes (0 :: byte) in
      case File_Read f bytes of (bytes', _, err) \<Rightarrow>
        (case check_error err msg_reading of
           Inl ft \<Rightarrow> Inl ft
         | Inr _ \<Rightarrow> Inr bytes'))"

section \<open>Decoding\<close>

text \<open>
  \<open>binary.Read(buf, binary.LittleEndian, &header)\<close> on a \<open>bytes.Buffer\<close> holding \<open>d\<close>:
  it reads \<open>sizeof_NesHeader\<close> bytes with \<open>io.ReadFull\<close> (\<open>io.EOF\<close> when there is none,
  \<open>io.ErrUnexpectedEOF\<close> when there are too few; the header is then left as it was) and
  stores them into the fields in declaration order. Every field is made of single
  bytes, so the byte order plays no part.
\<close>

definition binary_Read :: "byte list \<Rightarrow> NesHeader \<Rightarrow> NesHeader \<times> go_error option" where
  "binary_Read d header =
     (if length d < sizeof_NesHeader
      then (header, Some (if d = [] then EOF else ErrUnexpectedEOF))
      else (\<lparr> Magic = [d ! 0, d ! 1, d ! 2, d ! 3],
              PRGROMSize = d ! 4,
              CHRROMSize = d ! 5,
              Flags6 = d ! 6,
              Flags7 = d ! 7,
              PRGRAMSize = d ! 8,
              Flags9 = d ! 9,
              Flags10 = d ! 10,
              Zero = [d ! 11, d ! 12, d ! 13, d ! 14, d ! 15] \<rparr>, None))"

text \<open>The zero value \<open>NesHeader{}\<close> of line 213.\<close>

definition NesHeader_zero :: NesHeader where
  "NesHeader_zero =
     \<lparr> Magic = replicate 4 0, PRGROMSize = 0, CHRROMSize = 0, Flags6 = 0, Flags7 = 0,
       PRGRAMSize = 0, Flags9 = 0, Flags10 = 0, Zero = replicate 5 0 \<rparr>"

text \<open>
  Lines 213-217 of \<open>main\<close>: the header is read and decoded, or the process ends in
  \<open>check_error\<close>. There is no other test on the bytes.
\<close>

definition decode :: "File \<Rightarrow> fatal + NesHeader" where
  "decode f =
     (case readNumBytes f sizeof_NesHeader of
        Inl ft \<Rightarrow> Inl ft
      | Inr data \<Rightarrow>
          (case binary_Read data NesHeader_zero of (header, err) \<Rightarrow>
             (case check_error err msg_decoding of
                Inl ft \<Rightarrow> Inl ft
              | Inr _ \<Rightarrow> Inr header)))"

section \<open>The report\<close>

text \<open>The verbs of \<open>fmt.Printf\<close> that the report uses, on \<open>uint8\<close> arguments.\<close>

definition digit :: "nat \<Rightarrow> char" where
  "digit d = ''0123456789abcdef'' ! d"

fun fmt_nat :: "nat \<Rightarrow> string" where
  "fmt_nat n = (if n < 10 then [digit n] else fmt_nat (n div 10) @ [digit (n mod 10)])"

declare fmt_nat.simps [simp del]

text \<open>\<open>%d\<close>: decimal, no padding.\<close>

definition fmt_d :: "byte \<Rightarrow> string" where
  "fmt_d b = fmt_nat (unat b)"

text \<open>\<open>%08b\<close>: binary, zero-padded to eight digits.\<close>

definition fmt_08b :: "byte \<Rightarrow> string" where
  "fmt_08b b = map (\<lambda>i. if bit b i then CHR ''1'' else CHR ''0'') [7, 6, 5, 4, 3, 2, 1, 0]"

text \<open>\<open>%02x\<close>: lower-case hexadecimal, zero-padded to two digits.\<close>

definition fmt_02x :: "byte \<Rightarrow> string" where
  "fmt_02x b = [digit (unat b div 16), digit (unat b mod 16)]"

text \<open>
  \<open>%c\<close>: the character whose code point is the argument, written in UTF-8: one byte
  below 0x80, two bytes from 0x80 to 0xFF.
\<close>

definition fmt_c :: "byte \<Rightarrow> string" where
  "fmt_c b =
     (if b < 0x80 then [char_of (unat b)]
      else [char_of (unat (0xC0 OR drop_bit 6 b)), char_of (unat (0x80 OR (b AND 0x3F)))])"

text \<open>
  The arguments that lines 225-229 hand to \<open>Printf\<close>. The operands are \<open>uint8\<close> and
  the constants 16 and 8 are untyped, so each product is a \<open>uint8\<close> product.
\<close>

definition prg_rom_kb :: "NesHeader \<Rightarrow> byte" where
  "prg_rom_kb header = PRGROMSize header * 16"

definition chr_rom_kb :: "NesHeader \<Rightarrow> byte" where
  "chr_rom_kb header = CHRROMSize header * 8"

definition mapper :: "NesHeader \<Rightarrow> byte" where
  "mapper header = Flags7 header"

definition prg_ram_kb :: "NesHeader \<Rightarrow> byte" where
  "prg_ram_kb header = PRGRAMSize header * 8"

text \<open>
  What the program writes: \<open>pretty(header)\<close> (the JSON dump of the whole struct, debug
  only), a line through the colour printer \<open>print_good\<close>, and plain \<open>fmt.Printf\<close> lines.
\<close>

datatype out = Pretty NesHeader | Good string | Printf string

definition nl :: string where
  "nl = [CHR 0x0A]"

text \<open>Lines 223-231 of \<open>main\<close>.\<close>

definition report :: "NesHeader \<Rightarrow> out list" where
  "report header =
     [Good (nl @ ''Info: Decoded Header.'' @ nl),
      Printf (''Magic:    '' @ fmt_c (Magic header ! 0) @ fmt_c (Magic header ! 1)
              @ fmt_c (Magic header ! 2) @ '' x'' @ fmt_02x (Magic header ! 3) @ nl),
      Printf (''PRG ROM:  '' @ fmt_d (prg_rom_kb header) @ '' KB'' @ nl),
      Printf (''CHR ROM:  '' @ fmt_d (chr_rom_kb header) @ '' KB'' @ nl),
      Printf (''Flags 6:  '' @ fmt_08b (Flags6 header) @ nl),
      Printf (''Flags 7:  '' @ fmt_08b (mapper header) @ '' - (Mapper)'' @ nl),
      Printf (''Flags 8:  '' @ fmt_d (prg_ram_kb header) @ '' KB - (PRG RAM Size)'' @ nl),
      Printf (''Flags 9:  '' @ fmt_08b (Flags9 header) @ nl),
      Printf (''Flags 10: '' @ fmt_08b (Flags10 header) @ nl)]"

text \<open>
  \<open>main\<close> from line 213 on, with the global \<open>isset_debug\<close> as a parameter and the
  opened file as the source.
\<close>

definition main :: "bool \<Rightarrow> File \<Rightarrow> fatal + out list" where
  "main isset_debug f =
     (case decode f of
        Inl ft \<Rightarrow> Inl ft
      | Inr header \<Rightarrow> Inr ((if isset_debug then [Pretty header] else []) @ report header))"

section \<open>Notions used to state the properties\<close>

text \<open>
  The sixteen bytes of a header in the order of the struct declaration (lines 60-68):
  the layout that \<open>binary_Read\<close> fills.
\<close>

definition NesHeader_bytes :: "NesHeader \<Rightarrow> byte list" where
  "NesHeader_bytes header =
     Magic header @ [PRGROMSize header, CHRROMSize header, Flags6 header, Flags7 header,
       PRGRAMSize header, Flags9 header, Flags10 header] @ Zero header"

text \<open>
  The mapper number as the specification words it (not what \<open>main\<close> prints): the high
  nibble of \<open>flags7\<close> as the high four bits, the high nibble of \<open>flags6\<close> as the low
  four bits.
\<close>

definition mapperNumber_spec :: "NesHeader \<Rightarrow> byte" where
  "mapperNumber_spec header = (Flags7 header AND 0xF0) OR drop_bit 4 (Flags6 header)"

section \<open>Reading and decoding: basic facts\<close>

lemma sizeof_NesHeader_16: "sizeof_NesHeader = 16"
  by (simp add: sizeof_NesHeader_def)

lemma upt_16: "[0..<16] = [0, 1, 2, 3, 4, 5, 6, 7, 8, 9, 10, 11, 12, 13, 14, 15]"
  by code_simp

lemma list16_nth:
  assumes "length d = 16"
  shows "d = [d ! 0, d ! 1, d ! 2, d ! 3, d ! 4, d ! 5, d ! 6, d ! 7, d ! 8, d ! 9, d ! 10,
              d ! 11, d ! 12, d ! 13, d ! 14, d ! 15]"
proof -
  have "d = map ((!) d) [0..<length d]"
    by (simp add: map_nth)
  then show ?thesis
    using assms by (simp add: upt_16)
qed

lemma list16_elems:
  assumes "length (d :: 'a list) = 16"
  obtains a0 a1 a2 a3 a4 a5 a6 a7 a8 a9 a10 a11 a12 a13 a14 a15
  where "d = [a0, a1, a2, a3, a4, a5, a6, a7, a8, a9, a10, a11, a12, a13, a14, a15]"
  using list16_nth [OF assms] by blast

text \<open>A buffer of sixteen bytes always decodes, each field from its own offset.\<close>

lemma binary_Read_16:
  assumes "length d = 16"
  shows "binary_Read d z =
           (\<lparr> Magic = take 4 d, PRGROMSize = d ! 4, CHRROMSize = d ! 5, Flags6 = d ! 6,
               Flags7 = d ! 7, PRGRAMSize = d ! 8, Flags9 = d ! 9, Flags10 = d ! 10,
               Zero = drop 11 d \<rparr>, None)"
proof -
  obtain a0 a1 a2 a3 a4 a5 a6 a7 a8 a9 a10 a11 a12 a13 a14 a15
    where d: "d = [a0, a1, a2, a3, a4, a5, a6, a7, a8, a9, a10, a11, a12, a13, a14, a15]"
    using list16_elems [OF assms] .
  show ?thesis
    unfolding d by (simp add: binary_Read_def sizeof_NesHeader_16)
qed

lemma NesHeader_bytes_16:
  assumes "length d = 16"
  shows "NesHeader_bytes \<lparr> Magic = take 4 d, PRGROMSize = d ! 4, CHRROMSize = d ! 5,
           Flags6 = d ! 6, Flags7 = d ! 7, PRGRAMSize = d ! 8, Flags9 = d ! 9,
           Flags10 = d ! 10, Zero = drop 11 d \<rparr> = d"
proof -
  obtain a0 a1 a2 a3 a4 a5 a6 a7 a8 a9 a10 a11 a12 a13 a14 a15
    where d: "d = [a0, a1, a2, a3, a4, a5, a6, a7, a8, a9, a10, a11, a12, a13, a14, a15]"
    using list16_elems [OF assms] .
  show ?thesis
    unfolding d by (simp add: NesHeader_bytes_def)
qed

lemma File_Read_ok:
  assumes "fault f = None" and "content f \<noteq> []" and "b \<noteq> []"
  shows "File_Read f b =
           (take (length b) (content f) @ drop (length (content f)) b,
            min (length b) (length (content f)), None)"
  using assms by (simp add: File_Read_def Let_def min_def)

lemma readNumBytes_ok:
  assumes "fault f = None" and "content f \<noteq> []" and "0 < n"
  shows "readNumBytes f n = Inr (take n (content f) @ replicate (n - length (content f)) 0)"
  using assms by (simp add: readNumBytes_def File_Read_ok check_error_def)

lemma readNumBytes_fault:
  assumes "fault f = Some e" and "0 < n"
  shows "readNumBytes f n = Inl (Fatal msg_reading (PathError e))"
  using assms by (simp add: readNumBytes_def File_Read_def check_error_def)

lemma readNumBytes_empty:
  assumes "fault f = None" and "content f = []" and "0 < n"
  shows "readNumBytes f n = Inl (Fatal msg_reading EOF)"
  using assms by (simp add: readNumBytes_def File_Read_def check_error_def)

text \<open>
  Whenever the read hands over at least one byte and no error, the decode succeeds on
  the buffer: the bytes read, followed by the zeros the buffer was made with.
\<close>

lemma decode_ok:
  assumes "fault f = None" and "content f \<noteq> []"
    and d: "d = take 16 (content f) @ replicate (16 - length (content f)) 0"
  shows "decode f =
           Inr \<lparr> Magic = take 4 d, PRGROMSize = d ! 4, CHRROMSize = d ! 5, Flags6 = d ! 6,
                 Flags7 = d ! 7, PRGRAMSize = d ! 8, Flags9 = d ! 9, Flags10 = d ! 10,
                 Zero = drop 11 d \<rparr>"
proof -
  have r: "readNumBytes f sizeof_NesHeader = Inr d"
    using readNumBytes_ok [OF assms(1,2), of sizeof_NesHeader]
    by (simp add: sizeof_NesHeader_16 d)
  have "length d = 16"
    by (simp add: d min_def)
  then show ?thesis
    by (simp add: decode_def r binary_Read_16 check_error_def)
qed

lemma decode_fault:
  assumes "fault f = Some e"
  shows "decode f = Inl (Fatal msg_reading (PathError e))"
  using readNumBytes_fault [OF assms, of sizeof_NesHeader]
  by (simp add: decode_def sizeof_NesHeader_16)

lemma decode_empty:
  assumes "fault f = None" and "content f = []"
  shows "decode f = Inl (Fatal msg_reading EOF)"
  using readNumBytes_empty [OF assms, of sizeof_NesHeader]
  by (simp add: decode_def sizeof_NesHeader_16)

lemma decode_Inr_no_fault:
  assumes "decode f = Inr h"
  shows "fault f = None"
proof (cases "fault f")
  case None
  then show ?thesis .
next
  case (Some e)
  then show ?thesis
    using decode_fault [of f e] assms by simp
qed

text \<open>The products are \<open>uint8\<close> products: they are taken modulo 256.\<close>

lemma unat_prg_rom_kb: "unat (prg_rom_kb h) = (unat (PRGROMSize h) * 16) mod 256"
  by (simp add: prg_rom_kb_def unat_word_ariths)

lemma unat_chr_rom_kb: "unat (chr_rom_kb h) = (unat (CHRROMSize h) * 8) mod 256"
  by (simp add: chr_rom_kb_def unat_word_ariths)

lemma unat_prg_ram_kb: "unat (prg_ram_kb h) = (unat (PRGRAMSize h) * 8) mod 256"
  by (simp add: prg_ram_kb_def unat_word_ariths)

lemma bit_F0: "bit (0xF0 :: byte) n \<longleftrightarrow> 4 \<le> n \<and> n < 8"
proof -
  have e: "(0xF0 :: byte) = push_bit 4 (mask 4)"
    by (simp add: mask_eq_exp_minus_1)
  show ?thesis
    unfolding e by (auto simp: bit_simps)
qed

lemma bit_0F: "bit (0x0F :: byte) n \<longleftrightarrow> n < 4"
proof -
  have e: "(0x0F :: byte) = mask 4"
    by (simp add: mask_eq_exp_minus_1)
  show ?thesis
    unfolding e by (auto simp: bit_simps)
qed

lemma nibbles_eq_iff:
  "(x :: byte) = (x AND 0xF0) OR drop_bit 4 y \<longleftrightarrow> drop_bit 4 y = x AND 0x0F"
  apply (simp only: bit_eq_iff bit_simps bit_F0 bit_0F)
  apply (rule iffI)
   apply (intro allI impI)
  subgoal for n
    apply (drule spec [of _ n])
    apply (auto dest: bit_imp_le_length)
    done
  apply (intro allI impI)
  subgoal for n
    apply (drule spec [of _ n])
    apply (auto dest: bit_imp_le_length)
    done
  done

lemma high_nibble_kept: "drop_bit 4 ((x AND 0xF0) OR drop_bit 4 y) = drop_bit 4 (x :: byte)"
  apply (rule bit_eqI)
  apply (simp only: bit_drop_bit_eq bit_or_iff bit_and_iff bit_F0 comp_def)
  apply (auto dest: bit_imp_le_length)
  done

section \<open>The claims\<close>

text \<open>
  C5. For the input \<open>4E 45 53 1A 02 01 01 00 00 00 00 00 00 00 00 00\<close> the decode
  succeeds with \<open>PRGROMSize = 2\<close>, \<open>CHRROMSize = 1\<close>, \<open>Flags6 = 0x01\<close>, \<open>Flags7 = 0x00\<close>,
  \<open>PRGRAMSize = 0\<close>; the program ROM size printed is 32 KB and the graphics ROM size
  printed is 8 KB.
\<close>

theorem decode_reference_header:
  "decode \<lparr> content = [0x4E, 0x45, 0x53, 0x1A, 0x02, 0x01, 0x01, 0x00,
                        0x00, 0x00, 0x00, 0x00, 0x00, 0x00, 0x00, 0x00], fault = None \<rparr>
     = Inr \<lparr> Magic = [0x4E, 0x45, 0x53, 0x1A], PRGROMSize = 2, CHRROMSize = 1,
             Flags6 = 0x01, Flags7 = 0x00, PRGRAMSize = 0, Flags9 = 0, Flags10 = 0,
             Zero = [0, 0, 0, 0, 0] \<rparr>
   \<and> prg_rom_kb \<lparr> Magic = [0x4E, 0x45, 0x53, 0x1A], PRGROMSize = 2, CHRROMSize = 1,
             Flags6 = 0x01, Flags7 = 0x00, PRGRAMSize = 0, Flags9 = 0, Flags10 = 0,
             Zero = [0, 0, 0, 0, 0] \<rparr> = 32
   \<and> chr_rom_kb \<lparr> Magic = [0x4E, 0x45, 0x53, 0x1A], PRGROMSize = 2, CHRROMSize = 1,
             Flags6 = 0x01, Flags7 = 0x00, PRGRAMSize = 0, Flags9 = 0, Flags10 = 0,
             Zero = [0, 0, 0, 0, 0] \<rparr> = 8
   \<and> main False \<lparr> content = [0x4E, 0x45, 0x53, 0x1A, 0x02, 0x01, 0x01, 0x00,
                        0x00, 0x00, 0x00, 0x00, 0x00, 0x00, 0x00, 0x00], fault = None \<rparr>
     = Inr [Good (nl @ ''Info: Decoded Header.'' @ nl),
            Printf (''Magic:    NES x1a'' @ nl),
            Printf (''PRG ROM:  32 KB'' @ nl),
            Printf (''CHR ROM:  8 KB'' @ nl),
            Printf (''Flags 6:  00000001'' @ nl),
            Printf (''Flags 7:  00000000 - (Mapper)'' @ nl),
            Printf (''Flags 8:  0 KB - (PRG RAM Size)'' @ nl),
            Printf (''Flags 9:  00000000'' @ nl),
            Printf (''Flags 10: 00000000'' @ nl)]"
proof -
  have d: "decode \<lparr> content = [0x4E, 0x45, 0x53, 0x1A, 0x02, 0x01, 0x01, 0x00,
                        0x00, 0x00, 0x00, 0x00, 0x00, 0x00, 0x00, 0x00], fault = None \<rparr>
     = Inr \<lparr> Magic = [0x4E, 0x45, 0x53, 0x1A], PRGROMSize = 2, CHRROMSize = 1,
             Flags6 = 0x01, Flags7 = 0x00, PRGRAMSize = 0, Flags9 = 0, Flags10 = 0,
             Zero = [0, 0, 0, 0, 0] \<rparr>"
    by (subst decode_ok [OF _ _ refl]) simp_all
  have c: "fmt_c 0x4E = ''N''" "fmt_c 0x45 = ''E''" "fmt_c 0x53 = ''S''"
    by code_simp+
  have x: "fmt_02x 0x1A = ''1a''"
    by (simp add: fmt_02x_def digit_def)
  have n: "fmt_d 32 = ''32''" "fmt_d 8 = ''8''" "fmt_d 0 = ''0''"
    by (simp_all add: fmt_d_def fmt_nat.simps digit_def)
  have b: "fmt_08b 1 = ''00000001''" "fmt_08b 0 = ''00000000''"
    by (simp_all add: fmt_08b_def)
  show ?thesis
    by (simp add: d main_def report_def prg_rom_kb_def chr_rom_kb_def prg_ram_kb_def
        mapper_def c x n b)
qed

text \<open>
  C6. For every input of at least sixteen bytes that decodes, each field is the raw
  byte at its fixed offset: \<open>Magic\<close> is bytes 0-3, \<open>PRGROMSize\<close> byte 4, \<open>CHRROMSize\<close>
  byte 5, \<open>Flags6\<close> byte 6, \<open>Flags7\<close> byte 7, \<open>PRGRAMSize\<close> byte 8, \<open>Flags9\<close> byte 9,
  \<open>Flags10\<close> byte 10 and \<open>Zero\<close> bytes 11-15; the header laid out again is the first
  sixteen bytes of the input, unchanged.
\<close>

theorem decode_fields_at_offsets:
  assumes "16 \<le> length (content f)" and "decode f = Inr h"
  shows "Magic h = take 4 (content f)
       \<and> PRGROMSize h = content f ! 4
       \<and> CHRROMSize h = content f ! 5
       \<and> Flags6 h = content f ! 6
       \<and> Flags7 h = content f ! 7
       \<and> PRGRAMSize h = content f ! 8
       \<and> Flags9 h = content f ! 9
       \<and> Flags10 h = content f ! 10
       \<and> Zero h = take 5 (drop 11 (content f))
       \<and> NesHeader_bytes h = take 16 (content f)"
proof -
  define d where "d = take 16 (content f) @ replicate (16 - length (content f)) 0"
  have nf: "fault f = None"
    using decode_Inr_no_fault [OF assms(2)] .
  have ne: "content f \<noteq> []"
    using assms(1) by auto
  have d16: "d = take 16 (content f)"
    using assms(1) by (simp add: d_def)
  have len: "length d = 16"
    using assms(1) by (simp add: d16)
  have h: "h = \<lparr> Magic = take 4 d, PRGROMSize = d ! 4, CHRROMSize = d ! 5, Flags6 = d ! 6,
                 Flags7 = d ! 7, PRGRAMSize = d ! 8, Flags9 = d ! 9, Flags10 = d ! 10,
                 Zero = drop 11 d \<rparr>"
    using decode_ok [OF nf ne d_def] assms(2) by simp
  have b: "NesHeader_bytes h = take 16 (content f)"
    unfolding h using NesHeader_bytes_16 [OF len] by (simp add: d16)
  have fields: "Magic h = take 4 (content f)" "PRGROMSize h = content f ! 4"
    "CHRROMSize h = content f ! 5" "Flags6 h = content f ! 6" "Flags7 h = content f ! 7"
    "PRGRAMSize h = content f ! 8" "Flags9 h = content f ! 9" "Flags10 h = content f ! 10"
    "Zero h = take 5 (drop 11 (content f))"
    by (simp_all add: h d16 drop_take)
  show ?thesis
    using fields b by simp
qed

theorem decode_fields_at_offsets_witness:
  "16 \<le> length (content \<lparr> content = [0x4E, 0x45, 0x53, 0x1A, 0x02, 0x01, 0x41, 0x08, 0x01, 0x09, 0x0A, 0x0B, 0x0C, 0x0D, 0x0E, 0x0F], fault = None \<rparr>)
   \<and> decode \<lparr> content = [0x4E, 0x45, 0x53, 0x1A, 0x02, 0x01, 0x41, 0x08, 0x01, 0x09, 0x0A, 0x0B, 0x0C, 0x0D, 0x0E, 0x0F], fault = None \<rparr>
       = Inr \<lparr> Magic = [0x4E, 0x45, 0x53, 0x1A], PRGROMSize = 0x02, CHRROMSize = 0x01, Flags6 = 0x41, Flags7 = 0x08, PRGRAMSize = 0x01, Flags9 = 0x09, Flags10 = 0x0A, Zero = [0x0B, 0x0C, 0x0D, 0x0E, 0x0F] \<rparr>
   \<and> Magic \<lparr> Magic = [0x4E, 0x45, 0x53, 0x1A], PRGROMSize = 0x02, CHRROMSize = 0x01, Flags6 = 0x41, Flags7 = 0x08, PRGRAMSize = 0x01, Flags9 = 0x09, Flags10 = 0x0A, Zero = [0x0B, 0x0C, 0x0D, 0x0E, 0x0F] \<rparr> = take 4 (content \<lparr> content = [0x4E, 0x45, 0x53, 0x1A, 0x02, 0x01, 0x41, 0x08, 0x01, 0x09, 0x0A, 0x0B, 0x0C, 0x0D, 0x0E, 0x0F], fault = None \<rparr>)
   \<and> PRGROMSize \<lparr> Magic = [0x4E, 0x45, 0x53, 0x1A], PRGROMSize = 0x02, CHRROMSize = 0x01, Flags6 = 0x41, Flags7 = 0x08, PRGRAMSize = 0x01, Flags9 = 0x09, Flags10 = 0x0A, Zero = [0x0B, 0x0C, 0x0D, 0x0E, 0x0F] \<rparr> = content \<lparr> content = [0x4E, 0x45, 0x53, 0x1A, 0x02, 0x01, 0x41, 0x08, 0x01, 0x09, 0x0A, 0x0B, 0x0C, 0x0D, 0x0E, 0x0F], fault = None \<rparr> ! 4
   \<and> Flags7 \<lparr> Magic = [0x4E, 0x45, 0x53, 0x1A], PRGROMSize = 0x02, CHRROMSize = 0x01, Flags6 = 0x41, Flags7 = 0x08, PRGRAMSize = 0x01, Flags9 = 0x09, Flags10 = 0x0A, Zero = [0x0B, 0x0C, 0x0D, 0x0E, 0x0F] \<rparr> = content \<lparr> content = [0x4E, 0x45, 0x53, 0x1A, 0x02, 0x01, 0x41, 0x08, 0x01, 0x09, 0x0A, 0x0B, 0x0C, 0x0D, 0x0E, 0x0F], fault = None \<rparr> ! 7
   \<and> Zero \<lparr> Magic = [0x4E, 0x45, 0x53, 0x1A], PRGROMSize = 0x02, CHRROMSize = 0x01, Flags6 = 0x41, Flags7 = 0x08, PRGRAMSize = 0x01, Flags9 = 0x09, Flags10 = 0x0A, Zero = [0x0B, 0x0C, 0x0D, 0x0E, 0x0F] \<rparr> = take 5 (drop 11 (content \<lparr> content = [0x4E, 0x45, 0x53, 0x1A, 0x02, 0x01, 0x41, 0x08, 0x01, 0x09, 0x0A, 0x0B, 0x0C, 0x0D, 0x0E, 0x0F], fault = None \<rparr>))"
proof -
  have a: "16 \<le> length (content \<lparr> content = [0x4E, 0x45, 0x53, 0x1A, 0x02, 0x01, 0x41, 0x08, 0x01, 0x09, 0x0A, 0x0B, 0x0C, 0x0D, 0x0E, 0x0F], fault = None \<rparr>)"
    by simp
  have b: "decode \<lparr> content = [0x4E, 0x45, 0x53, 0x1A, 0x02, 0x01, 0x41, 0x08, 0x01, 0x09, 0x0A, 0x0B, 0x0C, 0x0D, 0x0E, 0x0F], fault = None \<rparr>
       = Inr \<lparr> Magic = [0x4E, 0x45, 0x53, 0x1A], PRGROMSize = 0x02, CHRROMSize = 0x01, Flags6 = 0x41, Flags7 = 0x08, PRGRAMSize = 0x01, Flags9 = 0x09, Flags10 = 0x0A, Zero = [0x0B, 0x0C, 0x0D, 0x0E, 0x0F] \<rparr>"
    by code_simp
  show ?thesis
    using a b decode_fields_at_offsets [OF a b] by simp
qed

text \<open>
  C1, as claimed: a sixteen-byte input whose first four bytes are not
  \<open>4E 45 53 1A\<close> makes the decode fail with \<open>InvalidMagic\<close> and builds no header. The
  code has no such test: the input below starts with \<open>4D 5A 90 00\<close>, and the decode
  returns a header whose \<open>Magic\<close> is those four bytes.
\<close>

theorem decode_invalid_magic_counterexample:
  "length ([0x4D, 0x5A, 0x90, 0x00, 0x03, 0x00, 0x00, 0x00, 0x04, 0x00, 0x00, 0x00, 0xFF, 0xFF, 0x00, 0x00] :: byte list) = 16
   \<and> take 4 ([0x4D, 0x5A, 0x90, 0x00, 0x03, 0x00, 0x00, 0x00, 0x04, 0x00, 0x00, 0x00, 0xFF, 0xFF, 0x00, 0x00] :: byte list) \<noteq> ([0x4E, 0x45, 0x53, 0x1A] :: byte list)
   \<and> decode \<lparr> content = [0x4D, 0x5A, 0x90, 0x00, 0x03, 0x00, 0x00, 0x00, 0x04, 0x00, 0x00, 0x00, 0xFF, 0xFF, 0x00, 0x00], fault = None \<rparr>
       = Inr \<lparr> Magic = [0x4D, 0x5A, 0x90, 0x00], PRGROMSize = 0x03, CHRROMSize = 0x00, Flags6 = 0x00, Flags7 = 0x00, PRGRAMSize = 0x04, Flags9 = 0x00, Flags10 = 0x00, Zero = [0x00, 0xFF, 0xFF, 0x00, 0x00] \<rparr>"
  by code_simp

text \<open>
  C1, amended: for every input of at least sixteen bytes read without an I/O error,
  whatever its first four bytes are, the decode succeeds and the \<open>Magic\<close> field holds
  those four bytes as they are; \<open>main\<close> goes on to print the report. No failure for a
  wrong magic tag exists.
\<close>

theorem decode_accepts_any_magic:
  assumes "fault f = None" and "16 \<le> length (content f)"
  shows "\<exists>h. decode f = Inr h \<and> Magic h = take 4 (content f)
           \<and> main dbg f = Inr ((if dbg then [Pretty h] else []) @ report h)"
proof -
  have ne: "content f \<noteq> []"
    using assms(2) by auto
  obtain h where h: "decode f = Inr h" and m: "Magic h = take 4 (take 16 (content f))"
    using decode_ok [OF assms(1) ne refl] assms(2) by simp
  have "main dbg f = Inr ((if dbg then [Pretty h] else []) @ report h)"
    by (simp add: main_def h)
  then show ?thesis
    using h m by simp
qed

theorem decode_accepts_any_magic_witness:
  "fault \<lparr> content = [0x4D, 0x5A, 0x90, 0x00, 0x03, 0x00, 0x00, 0x00, 0x04, 0x00, 0x00, 0x00, 0xFF, 0xFF, 0x00, 0x00], fault = None \<rparr> = None
   \<and> 16 \<le> length (content \<lparr> content = [0x4D, 0x5A, 0x90, 0x00, 0x03, 0x00, 0x00, 0x00, 0x04, 0x00, 0x00, 0x00, 0xFF, 0xFF, 0x00, 0x00], fault = None \<rparr>)
   \<and> take 4 (content \<lparr> content = [0x4D, 0x5A, 0x90, 0x00, 0x03, 0x00, 0x00, 0x00, 0x04, 0x00, 0x00, 0x00, 0xFF, 0xFF, 0x00, 0x00], fault = None \<rparr>) \<noteq> [0x4E, 0x45, 0x53, 0x1A]
   \<and> (\<exists>h. decode \<lparr> content = [0x4D, 0x5A, 0x90, 0x00, 0x03, 0x00, 0x00, 0x00, 0x04, 0x00, 0x00, 0x00, 0xFF, 0xFF, 0x00, 0x00], fault = None \<rparr> = Inr h
          \<and> Magic h = [0x4D, 0x5A, 0x90, 0x00]
          \<and> main False \<lparr> content = [0x4D, 0x5A, 0x90, 0x00, 0x03, 0x00, 0x00, 0x00, 0x04, 0x00, 0x00, 0x00, 0xFF, 0xFF, 0x00, 0x00], fault = None \<rparr> = Inr (report h))"
proof -
  have a: "fault \<lparr> content = [0x4D, 0x5A, 0x90, 0x00, 0x03, 0x00, 0x00, 0x00, 0x04, 0x00, 0x00, 0x00, 0xFF, 0xFF, 0x00, 0x00], fault = None \<rparr> = None"
    by simp
  have b: "16 \<le> length (content \<lparr> content = [0x4D, 0x5A, 0x90, 0x00, 0x03, 0x00, 0x00, 0x00, 0x04, 0x00, 0x00, 0x00, 0xFF, 0xFF, 0x00, 0x00], fault = None \<rparr>)"
    by simp
  show ?thesis
    using decode_accepts_any_magic [OF a b, of False] by simp
qed

text \<open>
  C2, as claimed: every input shorter than sixteen bytes makes the decode fail with
  \<open>TruncatedInput\<close>. The code discards the count that \<open>Read\<close> returns: the three-byte
  input \<open>4E 45 53\<close> decodes to a header, the missing thirteen bytes read as zero.
\<close>

theorem decode_truncated_counterexample:
  "length ([0x4E, 0x45, 0x53] :: byte list) < 16
   \<and> decode \<lparr> content = [0x4E, 0x45, 0x53], fault = None \<rparr>
       = Inr \<lparr> Magic = [0x4E, 0x45, 0x53, 0x00], PRGROMSize = 0x00, CHRROMSize = 0x00, Flags6 = 0x00, Flags7 = 0x00, PRGRAMSize = 0x00, Flags9 = 0x00, Flags10 = 0x00, Zero = [0x00, 0x00, 0x00, 0x00, 0x00] \<rparr>"
  by code_simp

text \<open>
  C2, amended: for every input shorter than sixteen bytes read without an I/O error,
  the decode never returns a partly filled header. On the empty input it fails in
  \<open>readNumBytes\<close> with the read message and \<open>io.EOF\<close>, and no header; on an input of 1
  to 15 bytes it returns a header with all sixteen bytes set: the input followed by
  zeros. No failure for a truncated input exists.
\<close>

theorem decode_short_input:
  assumes "fault f = None" and "length (content f) < 16"
  shows "if content f = [] then decode f = Inl (Fatal msg_reading EOF)
         else \<exists>h. decode f = Inr h
                \<and> NesHeader_bytes h = content f @ replicate (16 - length (content f)) 0
                \<and> length (Magic h) = 4 \<and> length (Zero h) = 5"
proof (cases "content f = []")
  case True
  then show ?thesis
    using decode_empty [OF assms(1)] by simp
next
  case False
  define d where "d = take 16 (content f) @ replicate (16 - length (content f)) 0"
  have dc: "d = content f @ replicate (16 - length (content f)) 0"
    using assms(2) by (simp add: d_def)
  have len: "length d = 16"
    using assms(2) by (simp add: dc)
  have h: "decode f = Inr \<lparr> Magic = take 4 d, PRGROMSize = d ! 4, CHRROMSize = d ! 5,
                 Flags6 = d ! 6, Flags7 = d ! 7, PRGRAMSize = d ! 8, Flags9 = d ! 9,
                 Flags10 = d ! 10, Zero = drop 11 d \<rparr>"
    using decode_ok [OF assms(1) False d_def] .
  show ?thesis
    using False h NesHeader_bytes_16 [OF len] len by (simp add: dc [symmetric])
qed

theorem decode_short_input_witness:
  "fault \<lparr> content = [], fault = None \<rparr> = None
   \<and> length (content \<lparr> content = ([] :: byte list), fault = (None :: nat option) \<rparr>) < 16
   \<and> decode \<lparr> content = [], fault = None \<rparr> = Inl (Fatal msg_reading EOF)
   \<and> fault \<lparr> content = [0x4E, 0x45, 0x53], fault = None \<rparr> = None
   \<and> length (content \<lparr> content = [0x4E, 0x45, 0x53], fault = None \<rparr>) < 16
   \<and> (\<exists>h. decode \<lparr> content = [0x4E, 0x45, 0x53], fault = None \<rparr> = Inr h
          \<and> NesHeader_bytes h = [0x4E, 0x45, 0x53, 0x00, 0x00, 0x00, 0x00, 0x00, 0x00, 0x00, 0x00, 0x00, 0x00, 0x00, 0x00, 0x00])"
proof -
  have a: "fault \<lparr> content = [], fault = None \<rparr> = None"
    by simp
  have b: "length (content \<lparr> content = ([] :: byte list), fault = (None :: nat option) \<rparr>) < 16"
    by simp
  have c: "fault \<lparr> content = [0x4E, 0x45, 0x53], fault = None \<rparr> = None"
    by simp
  have d: "length (content \<lparr> content = [0x4E, 0x45, 0x53], fault = None \<rparr>) < 16"
    by simp
  have r: "replicate 13 (0 :: byte) = [0, 0, 0, 0, 0, 0, 0, 0, 0, 0, 0, 0, 0]"
    by code_simp
  show ?thesis
    using decode_short_input [OF a b] decode_short_input [OF c d] by (auto simp: r)
qed

text \<open>
  C9. For every source that hands over n bytes, 1 \<le> n \<le> 15, and reports no read
  error, the decode succeeds, and so does \<open>main\<close>: the first n bytes of the header are
  the bytes read and the bytes at offsets n to 15 are zero.
\<close>

theorem decode_zero_fills_short_read:
  assumes "fault f = None" and "1 \<le> length (content f)" and "length (content f) \<le> 15"
  shows "\<exists>h. decode f = Inr h
           \<and> length (NesHeader_bytes h) = 16
           \<and> take (length (content f)) (NesHeader_bytes h) = content f
           \<and> drop (length (content f)) (NesHeader_bytes h)
               = replicate (16 - length (content f)) 0
           \<and> main dbg f = Inr ((if dbg then [Pretty h] else []) @ report h)"
proof -
  define d where "d = take 16 (content f) @ replicate (16 - length (content f)) 0"
  have ne: "content f \<noteq> []"
    using assms(2) by auto
  have dc: "d = content f @ replicate (16 - length (content f)) 0"
    using assms(3) by (simp add: d_def)
  have len: "length d = 16"
    using assms(3) by (simp add: dc)
  obtain h where h: "decode f = Inr h" and b: "NesHeader_bytes h = d"
    using decode_ok [OF assms(1) ne d_def] NesHeader_bytes_16 [OF len] by simp
  have "main dbg f = Inr ((if dbg then [Pretty h] else []) @ report h)"
    by (simp add: main_def h)
  moreover have "length (NesHeader_bytes h) = 16"
    using b len by simp
  moreover have "take (length (content f)) (NesHeader_bytes h) = content f"
    by (simp add: b dc)
  moreover have "drop (length (content f)) (NesHeader_bytes h)
      = replicate (16 - length (content f)) 0"
    by (simp add: b dc)
  ultimately show ?thesis
    using h by blast
qed

theorem decode_zero_fills_short_read_witness:
  "fault \<lparr> content = [0x4E, 0x45, 0x53, 0x1A, 0x02], fault = None \<rparr> = None
   \<and> 1 \<le> length (content \<lparr> content = [0x4E, 0x45, 0x53, 0x1A, 0x02], fault = None \<rparr>)
   \<and> length (content \<lparr> content = [0x4E, 0x45, 0x53, 0x1A, 0x02], fault = None \<rparr>) \<le> 15
   \<and> (\<exists>h. decode \<lparr> content = [0x4E, 0x45, 0x53, 0x1A, 0x02], fault = None \<rparr> = Inr h
          \<and> length (NesHeader_bytes h) = 16
          \<and> take 5 (NesHeader_bytes h) = [0x4E, 0x45, 0x53, 0x1A, 0x02]
          \<and> drop 5 (NesHeader_bytes h) = replicate 11 0
          \<and> main False \<lparr> content = [0x4E, 0x45, 0x53, 0x1A, 0x02], fault = None \<rparr> = Inr (report h))"
proof -
  have a: "fault \<lparr> content = [0x4E, 0x45, 0x53, 0x1A, 0x02], fault = None \<rparr> = None"
    by simp
  have b: "1 \<le> length (content \<lparr> content = [0x4E, 0x45, 0x53, 0x1A, 0x02], fault = None \<rparr>)"
    by simp
  have c: "length (content \<lparr> content = [0x4E, 0x45, 0x53, 0x1A, 0x02], fault = None \<rparr>) \<le> 15"
    by simp
  have l: "length (content \<lparr> content = [0x4E, 0x45, 0x53, 0x1A, 0x02], fault = None \<rparr>) = 5"
    by simp
  show ?thesis
    using decode_zero_fills_short_read [OF a b c, of False] unfolding l by simp
qed

text \<open>
  C8. For every source whose read reports an I/O error, the decode ends in
  \<open>check_error\<close> with the message of the read step and the error of the source itself:
  no header is built and nothing is printed as a report. The outcome is neither the
  end-of-file outcome of an empty input nor the failure of the decode step.
\<close>

theorem read_failure_is_fatal:
  assumes "fault f = Some e"
  shows "decode f = Inl (Fatal msg_reading (PathError e))
       \<and> main dbg f = Inl (Fatal msg_reading (PathError e))
       \<and> Fatal msg_reading (PathError e) \<noteq> Fatal msg_reading EOF
       \<and> Fatal msg_reading (PathError e) \<noteq> Fatal msg_decoding e'"
proof -
  have d: "decode f = Inl (Fatal msg_reading (PathError e))"
    using decode_fault [OF assms] .
  have m: "msg_reading \<noteq> msg_decoding"
    by (simp add: msg_reading_def msg_decoding_def)
  show ?thesis
    using m by (simp add: d main_def)
qed

theorem read_failure_is_fatal_witness:
  "fault \<lparr> content = [0x4E, 0x45, 0x53, 0x1A, 0x02, 0x01, 0x01, 0x00, 0x00, 0x00, 0x00, 0x00, 0x00, 0x00, 0x00, 0x00], fault = Some 5 \<rparr> = Some 5
   \<and> decode \<lparr> content = [0x4E, 0x45, 0x53, 0x1A, 0x02, 0x01, 0x01, 0x00, 0x00, 0x00, 0x00, 0x00, 0x00, 0x00, 0x00, 0x00], fault = Some 5 \<rparr> = Inl (Fatal msg_reading (PathError 5))
   \<and> main True \<lparr> content = [0x4E, 0x45, 0x53, 0x1A, 0x02, 0x01, 0x01, 0x00, 0x00, 0x00, 0x00, 0x00, 0x00, 0x00, 0x00, 0x00], fault = Some 5 \<rparr> = Inl (Fatal msg_reading (PathError 5))"
proof -
  have a: "fault \<lparr> content = [0x4E, 0x45, 0x53, 0x1A, 0x02, 0x01, 0x01, 0x00, 0x00, 0x00, 0x00, 0x00, 0x00, 0x00, 0x00, 0x00], fault = Some 5 \<rparr> = Some 5"
    by simp
  show ?thesis
    using read_failure_is_fatal [OF a, of True] by simp
qed

text \<open>
  C10. The report of lines 223-231 does not depend on the five bytes at offsets
  11-15: two inputs of at least sixteen bytes that agree on bytes 0 to 10 both decode,
  whatever their padding is, and give the same report, the same printed sizes and
  mapper byte, and the same output of \<open>main\<close> when the debug dump is off.
\<close>

theorem report_independent_of_padding:
  assumes "fault a = None" and "fault b = None"
    and "16 \<le> length (content a)" and "16 \<le> length (content b)"
    and "take 11 (content a) = take 11 (content b)"
  shows "\<exists>ha hb. decode a = Inr ha \<and> decode b = Inr hb
           \<and> report ha = report hb
           \<and> prg_rom_kb ha = prg_rom_kb hb \<and> chr_rom_kb ha = chr_rom_kb hb
           \<and> prg_ram_kb ha = prg_ram_kb hb \<and> mapper ha = mapper hb
           \<and> main False a = main False b"
proof -
  have nth: "content a ! i = content b ! i" if "i < 11" for i
  proof -
    have "content a ! i = take 11 (content a) ! i"
      using that by simp
    also have "\<dots> = take 11 (content b) ! i"
      by (simp only: assms(5))
    also have "\<dots> = content b ! i"
      using that by simp
    finally show ?thesis .
  qed
  have m: "take 4 (content a) = take 4 (content b)"
  proof -
    have "take 4 (content a) = take 4 (take 11 (content a))"
      by simp
    also have "\<dots> = take 4 (take 11 (content b))"
      by (simp only: assms(5))
    also have "\<dots> = take 4 (content b)"
      by simp
    finally show ?thesis .
  qed
  have nea: "content a \<noteq> []" and neb: "content b \<noteq> []"
    using assms(3,4) by auto
  obtain ha where ha: "decode a = Inr ha"
    and fa: "Magic ha = take 4 (content a)" "PRGROMSize ha = content a ! 4"
      "CHRROMSize ha = content a ! 5" "Flags6 ha = content a ! 6" "Flags7 ha = content a ! 7"
      "PRGRAMSize ha = content a ! 8" "Flags9 ha = content a ! 9" "Flags10 ha = content a ! 10"
    using decode_ok [OF assms(1) nea refl] assms(3) by simp
  obtain hb where hb: "decode b = Inr hb"
    and fb: "Magic hb = take 4 (content b)" "PRGROMSize hb = content b ! 4"
      "CHRROMSize hb = content b ! 5" "Flags6 hb = content b ! 6" "Flags7 hb = content b ! 7"
      "PRGRAMSize hb = content b ! 8" "Flags9 hb = content b ! 9" "Flags10 hb = content b ! 10"
    using decode_ok [OF assms(2) neb refl] assms(4) by simp
  have eq: "Magic ha = Magic hb" "PRGROMSize ha = PRGROMSize hb"
    "CHRROMSize ha = CHRROMSize hb" "Flags6 ha = Flags6 hb" "Flags7 ha = Flags7 hb"
    "PRGRAMSize ha = PRGRAMSize hb" "Flags9 ha = Flags9 hb" "Flags10 ha = Flags10 hb"
    by (simp_all add: fa fb m nth)
  have r: "report ha = report hb"
    by (simp add: report_def prg_rom_kb_def chr_rom_kb_def prg_ram_kb_def mapper_def eq)
  have k: "prg_rom_kb ha = prg_rom_kb hb" "chr_rom_kb ha = chr_rom_kb hb"
    "prg_ram_kb ha = prg_ram_kb hb" "mapper ha = mapper hb"
    by (simp_all add: prg_rom_kb_def chr_rom_kb_def prg_ram_kb_def mapper_def eq)
  have "main False a = main False b"
    by (simp add: main_def ha hb r)
  then show ?thesis
    using ha hb r k by blast
qed

theorem report_independent_of_padding_witness:
  "fault \<lparr> content = [0x4E, 0x45, 0x53, 0x1A, 0x02, 0x01, 0x01, 0x00, 0x00, 0x00, 0x00, 0x00, 0x00, 0x00, 0x00, 0x00], fault = None \<rparr> = None
   \<and> fault \<lparr> content = [0x4E, 0x45, 0x53, 0x1A, 0x02, 0x01, 0x01, 0x00, 0x00, 0x00, 0x00, 0x44, 0x75, 0x64, 0x65, 0x21], fault = None \<rparr> = None
   \<and> 16 \<le> length (content \<lparr> content = [0x4E, 0x45, 0x53, 0x1A, 0x02, 0x01, 0x01, 0x00, 0x00, 0x00, 0x00, 0x00, 0x00, 0x00, 0x00, 0x00], fault = None \<rparr>)
   \<and> 16 \<le> length (content \<lparr> content = [0x4E, 0x45, 0x53, 0x1A, 0x02, 0x01, 0x01, 0x00, 0x00, 0x00, 0x00, 0x44, 0x75, 0x64, 0x65, 0x21], fault = None \<rparr>)
   \<and> take 11 (content \<lparr> content = [0x4E, 0x45, 0x53, 0x1A, 0x02, 0x01, 0x01, 0x00, 0x00, 0x00, 0x00, 0x00, 0x00, 0x00, 0x00, 0x00], fault = None \<rparr>)
       = take 11 (content \<lparr> content = [0x4E, 0x45, 0x53, 0x1A, 0x02, 0x01, 0x01, 0x00, 0x00, 0x00, 0x00, 0x44, 0x75, 0x64, 0x65, 0x21], fault = None \<rparr>)
   \<and> (\<exists>ha hb. decode \<lparr> content = [0x4E, 0x45, 0x53, 0x1A, 0x02, 0x01, 0x01, 0x00, 0x00, 0x00, 0x00, 0x00, 0x00, 0x00, 0x00, 0x00], fault = None \<rparr> = Inr ha
          \<and> decode \<lparr> content = [0x4E, 0x45, 0x53, 0x1A, 0x02, 0x01, 0x01, 0x00, 0x00, 0x00, 0x00, 0x44, 0x75, 0x64, 0x65, 0x21], fault = None \<rparr> = Inr hb
          \<and> Zero ha \<noteq> Zero hb
          \<and> report ha = report hb
          \<and> main False \<lparr> content = [0x4E, 0x45, 0x53, 0x1A, 0x02, 0x01, 0x01, 0x00, 0x00, 0x00, 0x00, 0x00, 0x00, 0x00, 0x00, 0x00], fault = None \<rparr>
              = main False \<lparr> content = [0x4E, 0x45, 0x53, 0x1A, 0x02, 0x01, 0x01, 0x00, 0x00, 0x00, 0x00, 0x44, 0x75, 0x64, 0x65, 0x21], fault = None \<rparr>)"
proof -
  have a: "fault \<lparr> content = [0x4E, 0x45, 0x53, 0x1A, 0x02, 0x01, 0x01, 0x00, 0x00, 0x00, 0x00, 0x00, 0x00, 0x00, 0x00, 0x00], fault = None \<rparr> = None"
    by simp
  have b: "fault \<lparr> content = [0x4E, 0x45, 0x53, 0x1A, 0x02, 0x01, 0x01, 0x00, 0x00, 0x00, 0x00, 0x44, 0x75, 0x64, 0x65, 0x21], fault = None \<rparr> = None"
    by simp
  have c: "16 \<le> length (content \<lparr> content = [0x4E, 0x45, 0x53, 0x1A, 0x02, 0x01, 0x01, 0x00, 0x00, 0x00, 0x00, 0x00, 0x00, 0x00, 0x00, 0x00], fault = None \<rparr>)"
    by simp
  have d: "16 \<le> length (content \<lparr> content = [0x4E, 0x45, 0x53, 0x1A, 0x02, 0x01, 0x01, 0x00, 0x00, 0x00, 0x00, 0x44, 0x75, 0x64, 0x65, 0x21], fault = None \<rparr>)"
    by simp
  have e: "take 11 (content \<lparr> content = [0x4E, 0x45, 0x53, 0x1A, 0x02, 0x01, 0x01, 0x00, 0x00, 0x00, 0x00, 0x00, 0x00, 0x00, 0x00, 0x00], fault = None \<rparr>)
       = take 11 (content \<lparr> content = [0x4E, 0x45, 0x53, 0x1A, 0x02, 0x01, 0x01, 0x00, 0x00, 0x00, 0x00, 0x44, 0x75, 0x64, 0x65, 0x21], fault = None \<rparr>)"
    by simp
  have da: "decode \<lparr> content = [0x4E, 0x45, 0x53, 0x1A, 0x02, 0x01, 0x01, 0x00, 0x00, 0x00, 0x00, 0x00, 0x00, 0x00, 0x00, 0x00], fault = None \<rparr>
       = Inr \<lparr> Magic = [0x4E, 0x45, 0x53, 0x1A], PRGROMSize = 0x02, CHRROMSize = 0x01, Flags6 = 0x01, Flags7 = 0x00, PRGRAMSize = 0x00, Flags9 = 0x00, Flags10 = 0x00, Zero = [0x00, 0x00, 0x00, 0x00, 0x00] \<rparr>"
    by code_simp
  have db: "decode \<lparr> content = [0x4E, 0x45, 0x53, 0x1A, 0x02, 0x01, 0x01, 0x00, 0x00, 0x00, 0x00, 0x44, 0x75, 0x64, 0x65, 0x21], fault = None \<rparr>
       = Inr \<lparr> Magic = [0x4E, 0x45, 0x53, 0x1A], PRGROMSize = 0x02, CHRROMSize = 0x01, Flags6 = 0x01, Flags7 = 0x00, PRGRAMSize = 0x00, Flags9 = 0x00, Flags10 = 0x00, Zero = [0x44, 0x75, 0x64, 0x65, 0x21] \<rparr>"
    by code_simp
  show ?thesis
    using report_independent_of_padding [OF a b c d e] by (simp add: da db)
qed

text \<open>
  C4, as claimed: the mapper number reported is the byte whose low four bits are the
  high nibble of \<open>Flags6\<close> and whose high four bits are the high nibble of \<open>Flags7\<close>.
  Line 228 prints \<open>Flags7\<close> itself: for \<open>Flags6 = 0x12\<close>, \<open>Flags7 = 0x00\<close> the
  assembled number is 1 and the byte printed is 0.
\<close>

theorem mapper_assembled_counterexample:
  "decode \<lparr> content = [0x4E, 0x45, 0x53, 0x1A, 0x08, 0x00, 0x12, 0x00, 0x00, 0x00, 0x00, 0x00, 0x00, 0x00, 0x00, 0x00], fault = None \<rparr>
     = Inr \<lparr> Magic = [0x4E, 0x45, 0x53, 0x1A], PRGROMSize = 0x08, CHRROMSize = 0x00, Flags6 = 0x12, Flags7 = 0x00, PRGRAMSize = 0x00, Flags9 = 0x00, Flags10 = 0x00, Zero = [0x00, 0x00, 0x00, 0x00, 0x00] \<rparr>
   \<and> mapper \<lparr> Magic = [0x4E, 0x45, 0x53, 0x1A], PRGROMSize = 0x08, CHRROMSize = 0x00, Flags6 = 0x12, Flags7 = 0x00, PRGRAMSize = 0x00, Flags9 = 0x00, Flags10 = 0x00, Zero = [0x00, 0x00, 0x00, 0x00, 0x00] \<rparr> = 0
   \<and> mapperNumber_spec \<lparr> Magic = [0x4E, 0x45, 0x53, 0x1A], PRGROMSize = 0x08, CHRROMSize = 0x00, Flags6 = 0x12, Flags7 = 0x00, PRGRAMSize = 0x00, Flags9 = 0x00, Flags10 = 0x00, Zero = [0x00, 0x00, 0x00, 0x00, 0x00] \<rparr> = 1"
  by code_simp

text \<open>
  C4, amended: for every decoded header, the byte reported on the line labelled
  \<open>(Mapper)\<close> is \<open>Flags7\<close> as it is, that is byte 7 of the buffer read. Its high four
  bits are the high nibble of \<open>Flags7\<close>, as in the assembled number; its low four bits
  are the low nibble of \<open>Flags7\<close>, so it is the assembled number exactly when that
  nibble equals the high nibble of \<open>Flags6\<close>.
\<close>

theorem mapper_is_flags7:
  assumes "decode f = Inr h"
  shows "mapper h = Flags7 h
       \<and> mapper h = (content f @ replicate (16 - length (content f)) 0) ! 7
       \<and> report h ! 5 = Printf (''Flags 7:  '' @ fmt_08b (Flags7 h) @ '' - (Mapper)'' @ nl)
       \<and> drop_bit 4 (mapper h) = drop_bit 4 (mapperNumber_spec h)
       \<and> (mapper h = mapperNumber_spec h \<longleftrightarrow> drop_bit 4 (Flags6 h) = Flags7 h AND 0x0F)"
proof -
  define d where "d = take 16 (content f) @ replicate (16 - length (content f)) 0"
  have nf: "fault f = None"
    using decode_Inr_no_fault [OF assms] .
  have ne: "content f \<noteq> []"
    using decode_empty [OF nf] assms by auto
  have "Flags7 h = d ! 7"
    using decode_ok [OF nf ne d_def] assms by auto
  moreover have "d ! 7 = (content f @ replicate (16 - length (content f)) 0) ! 7"
  proof (cases "16 \<le> length (content f)")
    case True
    then show ?thesis
      by (simp add: d_def nth_append)
  next
    case False
    then show ?thesis
      by (simp add: d_def)
  qed
  ultimately have byte7: "mapper h = (content f @ replicate (16 - length (content f)) 0) ! 7"
    by (simp add: mapper_def)
  have line: "report h ! 5 = Printf (''Flags 7:  '' @ fmt_08b (Flags7 h) @ '' - (Mapper)'' @ nl)"
    by (simp add: report_def mapper_def)
  have high: "drop_bit 4 (mapper h) = drop_bit 4 (mapperNumber_spec h)"
    unfolding mapper_def mapperNumber_spec_def by (rule high_nibble_kept [symmetric])
  have low: "mapper h = mapperNumber_spec h \<longleftrightarrow> drop_bit 4 (Flags6 h) = Flags7 h AND 0x0F"
    unfolding mapper_def mapperNumber_spec_def by (rule nibbles_eq_iff)
  show ?thesis
    using byte7 line high low by (simp add: mapper_def)
qed

theorem mapper_is_flags7_witness:
  "decode \<lparr> content = [0x4E, 0x45, 0x53, 0x1A, 0x02, 0x01, 0x41, 0x08, 0x01, 0x09, 0x0A, 0x0B, 0x0C, 0x0D, 0x0E, 0x0F], fault = None \<rparr>
     = Inr \<lparr> Magic = [0x4E, 0x45, 0x53, 0x1A], PRGROMSize = 0x02, CHRROMSize = 0x01, Flags6 = 0x41, Flags7 = 0x08, PRGRAMSize = 0x01, Flags9 = 0x09, Flags10 = 0x0A, Zero = [0x0B, 0x0C, 0x0D, 0x0E, 0x0F] \<rparr>
   \<and> mapper \<lparr> Magic = [0x4E, 0x45, 0x53, 0x1A], PRGROMSize = 0x02, CHRROMSize = 0x01, Flags6 = 0x41, Flags7 = 0x08, PRGRAMSize = 0x01, Flags9 = 0x09, Flags10 = 0x0A, Zero = [0x0B, 0x0C, 0x0D, 0x0E, 0x0F] \<rparr> = 0x08
   \<and> mapperNumber_spec \<lparr> Magic = [0x4E, 0x45, 0x53, 0x1A], PRGROMSize = 0x02, CHRROMSize = 0x01, Flags6 = 0x41, Flags7 = 0x08, PRGRAMSize = 0x01, Flags9 = 0x09, Flags10 = 0x0A, Zero = [0x0B, 0x0C, 0x0D, 0x0E, 0x0F] \<rparr> = 0x04
   \<and> drop_bit 4 (mapper \<lparr> Magic = [0x4E, 0x45, 0x53, 0x1A], PRGROMSize = 0x02, CHRROMSize = 0x01, Flags6 = 0x41, Flags7 = 0x08, PRGRAMSize = 0x01, Flags9 = 0x09, Flags10 = 0x0A, Zero = [0x0B, 0x0C, 0x0D, 0x0E, 0x0F] \<rparr>)
       = drop_bit 4 (mapperNumber_spec \<lparr> Magic = [0x4E, 0x45, 0x53, 0x1A], PRGROMSize = 0x02, CHRROMSize = 0x01, Flags6 = 0x41, Flags7 = 0x08, PRGRAMSize = 0x01, Flags9 = 0x09, Flags10 = 0x0A, Zero = [0x0B, 0x0C, 0x0D, 0x0E, 0x0F] \<rparr>)"
proof -
  have b: "decode \<lparr> content = [0x4E, 0x45, 0x53, 0x1A, 0x02, 0x01, 0x41, 0x08, 0x01, 0x09, 0x0A, 0x0B, 0x0C, 0x0D, 0x0E, 0x0F], fault = None \<rparr>
     = Inr \<lparr> Magic = [0x4E, 0x45, 0x53, 0x1A], PRGROMSize = 0x02, CHRROMSize = 0x01, Flags6 = 0x41, Flags7 = 0x08, PRGRAMSize = 0x01, Flags9 = 0x09, Flags10 = 0x0A, Zero = [0x0B, 0x0C, 0x0D, 0x0E, 0x0F] \<rparr>"
    by code_simp
  have s: "mapperNumber_spec \<lparr> Magic = [0x4E, 0x45, 0x53, 0x1A], PRGROMSize = 0x02, CHRROMSize = 0x01, Flags6 = 0x41, Flags7 = 0x08, PRGRAMSize = 0x01, Flags9 = 0x09, Flags10 = 0x0A, Zero = [0x0B, 0x0C, 0x0D, 0x0E, 0x0F] \<rparr> = 0x04"
    by code_simp
  show ?thesis
    using b s mapper_is_flags7 [OF b] by simp
qed

text \<open>
  C3. The claim is that the program ROM size printed is the exact product
  \<open>PRGROMSize * 16\<close> and the graphics ROM size printed the exact product
  \<open>CHRROMSize * 8\<close>, for all unit counts 0 to 255. Lines 225 and 226 multiply in
  \<open>uint8\<close>: for the header below, with 16 program banks (256 KB) and 32 graphics banks
  (256 KB), the program prints 0 KB twice.
\<close>

theorem rom_size_product_wraps:
  "decode \<lparr> content = [0x4E, 0x45, 0x53, 0x1A, 0x10, 0x20, 0x00, 0x00, 0x00, 0x00, 0x00, 0x00, 0x00, 0x00, 0x00, 0x00], fault = None \<rparr>
     = Inr \<lparr> Magic = [0x4E, 0x45, 0x53, 0x1A], PRGROMSize = 0x10, CHRROMSize = 0x20, Flags6 = 0x00, Flags7 = 0x00, PRGRAMSize = 0x00, Flags9 = 0x00, Flags10 = 0x00, Zero = [0x00, 0x00, 0x00, 0x00, 0x00] \<rparr>
   \<and> unat (PRGROMSize \<lparr> Magic = [0x4E, 0x45, 0x53, 0x1A], PRGROMSize = 0x10, CHRROMSize = 0x20, Flags6 = 0x00, Flags7 = 0x00, PRGRAMSize = 0x00, Flags9 = 0x00, Flags10 = 0x00, Zero = [0x00, 0x00, 0x00, 0x00, 0x00] \<rparr>) * 16 = 256
   \<and> unat (prg_rom_kb \<lparr> Magic = [0x4E, 0x45, 0x53, 0x1A], PRGROMSize = 0x10, CHRROMSize = 0x20, Flags6 = 0x00, Flags7 = 0x00, PRGRAMSize = 0x00, Flags9 = 0x00, Flags10 = 0x00, Zero = [0x00, 0x00, 0x00, 0x00, 0x00] \<rparr>) = 0
   \<and> unat (CHRROMSize \<lparr> Magic = [0x4E, 0x45, 0x53, 0x1A], PRGROMSize = 0x10, CHRROMSize = 0x20, Flags6 = 0x00, Flags7 = 0x00, PRGRAMSize = 0x00, Flags9 = 0x00, Flags10 = 0x00, Zero = [0x00, 0x00, 0x00, 0x00, 0x00] \<rparr>) * 8 = 256
   \<and> unat (chr_rom_kb \<lparr> Magic = [0x4E, 0x45, 0x53, 0x1A], PRGROMSize = 0x10, CHRROMSize = 0x20, Flags6 = 0x00, Flags7 = 0x00, PRGRAMSize = 0x00, Flags9 = 0x00, Flags10 = 0x00, Zero = [0x00, 0x00, 0x00, 0x00, 0x00] \<rparr>) = 0
   \<and> main False \<lparr> content = [0x4E, 0x45, 0x53, 0x1A, 0x10, 0x20, 0x00, 0x00, 0x00, 0x00, 0x00, 0x00, 0x00, 0x00, 0x00, 0x00], fault = None \<rparr>
     = Inr [Good (nl @ ''Info: Decoded Header.'' @ nl),
      Printf (''Magic:    NES x1a'' @ nl),
      Printf (''PRG ROM:  0 KB'' @ nl),
      Printf (''CHR ROM:  0 KB'' @ nl),
      Printf (''Flags 6:  00000000'' @ nl),
      Printf (''Flags 7:  00000000 - (Mapper)'' @ nl),
      Printf (''Flags 8:  0 KB - (PRG RAM Size)'' @ nl),
      Printf (''Flags 9:  00000000'' @ nl),
      Printf (''Flags 10: 00000000'' @ nl)]"
  by code_simp

text \<open>
  C7. The claim is that the program RAM size printed is \<open>PRGRAMSize * 8\<close>, with 0
  printed as 0 KB. Line 229 multiplies in \<open>uint8\<close>: 0 units are printed as 0 KB, as
  claimed, but so are the 32 units (256 KB) of the header below.
\<close>

theorem prg_ram_size_product_wraps:
  "decode \<lparr> content = [0x4E, 0x45, 0x53, 0x1A, 0x02, 0x01, 0x02, 0x00, 0x20, 0x00, 0x00, 0x00, 0x00, 0x00, 0x00, 0x00], fault = None \<rparr>
     = Inr \<lparr> Magic = [0x4E, 0x45, 0x53, 0x1A], PRGROMSize = 0x02, CHRROMSize = 0x01, Flags6 = 0x02, Flags7 = 0x00, PRGRAMSize = 0x20, Flags9 = 0x00, Flags10 = 0x00, Zero = [0x00, 0x00, 0x00, 0x00, 0x00] \<rparr>
   \<and> unat (PRGRAMSize \<lparr> Magic = [0x4E, 0x45, 0x53, 0x1A], PRGROMSize = 0x02, CHRROMSize = 0x01, Flags6 = 0x02, Flags7 = 0x00, PRGRAMSize = 0x20, Flags9 = 0x00, Flags10 = 0x00, Zero = [0x00, 0x00, 0x00, 0x00, 0x00] \<rparr>) * 8 = 256
   \<and> unat (prg_ram_kb \<lparr> Magic = [0x4E, 0x45, 0x53, 0x1A], PRGROMSize = 0x02, CHRROMSize = 0x01, Flags6 = 0x02, Flags7 = 0x00, PRGRAMSize = 0x20, Flags9 = 0x00, Flags10 = 0x00, Zero = [0x00, 0x00, 0x00, 0x00, 0x00] \<rparr>) = 0
   \<and> report \<lparr> Magic = [0x4E, 0x45, 0x53, 0x1A], PRGROMSize = 0x02, CHRROMSize = 0x01, Flags6 = 0x02, Flags7 = 0x00, PRGRAMSize = 0x20, Flags9 = 0x00, Flags10 = 0x00, Zero = [0x00, 0x00, 0x00, 0x00, 0x00] \<rparr> ! 6
       = Printf (''Flags 8:  0 KB - (PRG RAM Size)'' @ nl)
   \<and> prg_ram_kb (NesHeader_zero \<lparr> PRGRAMSize := 0 \<rparr>) = 0"
  by code_simp

end
